theory Spec2Isabelle
  imports Main
begin

section \<open>Formatted output: the fragment of \<^verbatim>\<open>fmt.Sprintf\<close> used by the package\<close>

text \<open>
  Go's \<^verbatim>\<open>int\<close> is rendered by the verb \<^verbatim>\<open>%d\<close> in decimal, with a leading minus sign
  for a negative value. No arithmetic is done on the integers of this package, so they
  are modelled as unbounded integers.
\<close>

definition digit_char :: "nat \<Rightarrow> char" where
  "digit_char d = ''0123456789'' ! d"

function decimal :: "nat \<Rightarrow> string" where
  "decimal n = (if n < 10 then [digit_char n] else decimal (n div 10) @ [digit_char (n mod 10)])"
  by pat_completeness auto
termination
  by (relation "measure id") auto

declare decimal.simps [simp del]

definition itoa :: "int \<Rightarrow> string" where
  "itoa i = (if i < 0 then CHR ''-'' # decimal (nat (- i)) else decimal (nat i))"

text \<open>
  An operand of \<^verbatim>\<open>Sprintf\<close> is a string or an int. The verbs \<^verbatim>\<open>%s\<close>, \<^verbatim>\<open>%d\<close> and
  \<^verbatim>\<open>%v\<close> are interpreted; \<^verbatim>\<open>%%\<close> is a literal percent sign. A verb that does not fit
  its operand, a missing operand, a dangling percent sign and surplus operands print
  the diagnostics of package fmt instead of failing. The other verbs of package fmt
  (\<^verbatim>\<open>%x\<close>, \<^verbatim>\<open>%q\<close>, ...), flags, widths and precisions do not occur in the format
  strings of this package and lie outside the fragment: the model prints them as fmt
  prints a verb it does not know.
\<close>

datatype operand = OStr string | OInt int

fun type_name :: "operand \<Rightarrow> string" where
  "type_name (OStr s) = ''string''"
| "type_name (OInt i) = ''int''"

fun plain :: "operand \<Rightarrow> string" where
  "plain (OStr s) = s"
| "plain (OInt i) = itoa i"

definition bad_verb :: "char \<Rightarrow> operand \<Rightarrow> string" where
  "bad_verb v a = ''%!'' @ [v] @ ''('' @ type_name a @ ''='' @ plain a @ '')''"

fun verb :: "char \<Rightarrow> operand \<Rightarrow> string" where
  "verb v (OStr s) = (if v = CHR ''s'' \<or> v = CHR ''v'' then s else bad_verb v (OStr s))"
| "verb v (OInt i) = (if v = CHR ''d'' \<or> v = CHR ''v'' then itoa i else bad_verb v (OInt i))"

fun extra_list :: "operand list \<Rightarrow> string" where
  "extra_list [] = []"
| "extra_list [a] = type_name a @ ''='' @ plain a"
| "extra_list (a # b # as) = type_name a @ ''='' @ plain a @ '', '' @ extra_list (b # as)"

definition extra :: "operand list \<Rightarrow> string" where
  "extra as = (if as = [] then [] else ''%!(EXTRA '' @ extra_list as @ '')'')"

fun Sprintf :: "string \<Rightarrow> operand list \<Rightarrow> string" where
  "Sprintf [] as = extra as"
| "Sprintf [c] as = (if c = CHR ''%'' then ''%!(NOVERB)'' @ extra as else c # extra as)"
| "Sprintf (c # v # fs) as =
     (if c \<noteq> CHR ''%'' then c # Sprintf (v # fs) as
      else if v = CHR ''%'' then CHR ''%'' # Sprintf fs as
      else (case as of
              [] \<Rightarrow> ''%!'' @ [v] @ ''(MISSING)'' @ Sprintf fs []
            | a # as' \<Rightarrow> verb v a @ Sprintf fs as'))"

section \<open>The detailed API error\<close>

text \<open>
  \<^verbatim>\<open>APIResponse *ScrapeResult\<close> refers to a type declared outside the files at hand;
  the record is polymorphic in it, and \<open>None\<close> is the nil pointer.
\<close>

record 'r APIError =
  Message :: string
  Code :: string
  HTTPStatusCode :: int
  DocumentationURL :: string
  APIResponse :: "'r option"
  RetryAfterMs :: int
  Hint :: string

definition Error :: "'r APIError \<Rightarrow> string" where
  "Error e =
     (let base = Sprintf ''API Error: %s (code: %s, status: %d, docs: %s)''
                   [OStr (Message e), OStr (Code e), OInt (HTTPStatusCode e), OStr (DocumentationURL e)]
      in if RetryAfterMs e > 0
         then base @ Sprintf '', retry_after_ms: %d'' [OInt (RetryAfterMs e)]
         else base)"

section \<open>Sentinel errors\<close>

text \<open>
  \<^verbatim>\<open>errors.New\<close> returns a pointer to a freshly allocated \<^verbatim>\<open>errorString\<close>. A sentinel
  is the address of the allocation together with the text stored there; the allocator
  hands out consecutive addresses. Two sentinels are the same Go value (\<^verbatim>\<open>==\<close>) when
  their addresses are equal, whatever the text. Only the sentinels are values of this
  type: errors that wrap or join others, and \<^verbatim>\<open>*APIError\<close> used as an error, are built
  by code outside the files at hand and are not modelled.
\<close>

datatype error = errorString (addr: nat) (str: string)

definition errors_New :: "string \<Rightarrow> nat \<Rightarrow> error \<times> nat" where
  "errors_New t h = (errorString h t, Suc h)"

text \<open>The \<^verbatim>\<open>var ( ... )\<close> block: one call of \<^verbatim>\<open>errors.New\<close> per variable, in order.\<close>

fun new_all :: "string list \<Rightarrow> nat \<Rightarrow> error list \<times> nat" where
  "new_all [] h = ([], h)"
| "new_all (t # ts) h =
     (let (e, h1) = errors_New t h; (es, h2) = new_all ts h1 in (e # es, h2))"

definition sentinel_texts :: "string list" where
  "sentinel_texts =
     [''invalid key, must be a non-empty string'',
      ''invalid scrape config'',
      ''invalid screenshot config'',
      ''invalid extraction config'',
      ''invalid content type for this operation'',
      ''too many requests'',
      ''quota limit reached'',
      ''screenshot API error'',
      ''extraction API error'',
      ''upstream http client error'',
      ''upstream http server error'',
      ''API http client error'',
      ''API http server error'',
      ''scrape failed'',
      ''proxy error'',
      ''ASP bypass error'',
      ''schedule error'',
      ''webhook error'',
      ''session error'',
      ''unhandled API error response'']"

definition package_vars :: "error list" where
  "package_vars = fst (new_all sentinel_texts 0)"

definition ErrBadAPIKey :: error where "ErrBadAPIKey = package_vars ! 0"
definition ErrScrapeConfig :: error where "ErrScrapeConfig = package_vars ! 1"
definition ErrScreenshotConfig :: error where "ErrScreenshotConfig = package_vars ! 2"
definition ErrExtractionConfig :: error where "ErrExtractionConfig = package_vars ! 3"
definition ErrContentType :: error where "ErrContentType = package_vars ! 4"
definition ErrTooManyRequests :: error where "ErrTooManyRequests = package_vars ! 5"
definition ErrQuotaLimitReached :: error where "ErrQuotaLimitReached = package_vars ! 6"
definition ErrScreenshotAPIFailed :: error where "ErrScreenshotAPIFailed = package_vars ! 7"
definition ErrExtractionAPIFailed :: error where "ErrExtractionAPIFailed = package_vars ! 8"
definition ErrUpstreamClient :: error where "ErrUpstreamClient = package_vars ! 9"
definition ErrUpstreamServer :: error where "ErrUpstreamServer = package_vars ! 10"
definition ErrAPIClient :: error where "ErrAPIClient = package_vars ! 11"
definition ErrAPIServer :: error where "ErrAPIServer = package_vars ! 12"
definition ErrScrapeFailed :: error where "ErrScrapeFailed = package_vars ! 13"
definition ErrProxyFailed :: error where "ErrProxyFailed = package_vars ! 14"
definition ErrASPBypassFailed :: error where "ErrASPBypassFailed = package_vars ! 15"
definition ErrScheduleFailed :: error where "ErrScheduleFailed = package_vars ! 16"
definition ErrWebhookFailed :: error where "ErrWebhookFailed = package_vars ! 17"
definition ErrSessionFailed :: error where "ErrSessionFailed = package_vars ! 18"
definition ErrUnhandledAPIResponse :: error where "ErrUnhandledAPIResponse = package_vars ! 19"

text \<open>
  The enumeration of sentinel kinds as the specification words it, the invalid-config
  kind taken once per request type, and the package variable that stands for each.
\<close>

datatype request_type = Scrape | Screenshot | Extraction

datatype spec_kind =
    BadKey
  | InvalidConfig request_type
  | ContentTypeMismatch
  | RateLimited
  | QuotaExceeded
  | ScreenshotFailure
  | ExtractionFailure
  | UpstreamClient4xx
  | UpstreamServer5xx
  | ApiClient4xx
  | ApiServer5xx
  | ScrapeFailed
  | ProxyFailed
  | ASPBypassFailed
  | ScheduleFailed
  | WebhookFailed
  | SessionFailed
  | Unhandled

fun sentinel :: "spec_kind \<Rightarrow> error" where
  "sentinel BadKey = ErrBadAPIKey"
| "sentinel (InvalidConfig Scrape) = ErrScrapeConfig"
| "sentinel (InvalidConfig Screenshot) = ErrScreenshotConfig"
| "sentinel (InvalidConfig Extraction) = ErrExtractionConfig"
| "sentinel ContentTypeMismatch = ErrContentType"
| "sentinel RateLimited = ErrTooManyRequests"
| "sentinel QuotaExceeded = ErrQuotaLimitReached"
| "sentinel ScreenshotFailure = ErrScreenshotAPIFailed"
| "sentinel ExtractionFailure = ErrExtractionAPIFailed"
| "sentinel UpstreamClient4xx = ErrUpstreamClient"
| "sentinel UpstreamServer5xx = ErrUpstreamServer"
| "sentinel ApiClient4xx = ErrAPIClient"
| "sentinel ApiServer5xx = ErrAPIServer"
| "sentinel ScrapeFailed = ErrScrapeFailed"
| "sentinel ProxyFailed = ErrProxyFailed"
| "sentinel ASPBypassFailed = ErrASPBypassFailed"
| "sentinel ScheduleFailed = ErrScheduleFailed"
| "sentinel WebhookFailed = ErrWebhookFailed"
| "sentinel SessionFailed = ErrSessionFailed"
| "sentinel Unhandled = ErrUnhandledAPIResponse"

definition all_kinds :: "spec_kind list" where
  "all_kinds =
     [BadKey, InvalidConfig Scrape, InvalidConfig Screenshot, InvalidConfig Extraction,
      ContentTypeMismatch, RateLimited, QuotaExceeded, ScreenshotFailure, ExtractionFailure,
      UpstreamClient4xx, UpstreamServer5xx, ApiClient4xx, ApiServer5xx, ScrapeFailed,
      ProxyFailed, ASPBypassFailed, ScheduleFailed, WebhookFailed, SessionFailed, Unhandled]"

section \<open>The scenario builder\<close>

text \<open>
  A step is a \<^verbatim>\<open>map[string]any\<close>. The values stored by the builder are pointers to the
  parameter structs of the actions, or an int for \<^verbatim>\<open>wait\<close>; no step is shared or
  mutated after it is appended, so a pointer is modelled by the struct it points to.
\<close>

type_synonym SelectorState = string

definition SelectorStateVisible :: SelectorState where "SelectorStateVisible = ''visible''"
definition SelectorStateHidden :: SelectorState where "SelectorStateHidden = ''hidden''"

type_synonym ConditionAction = string

definition ActionContinue :: ConditionAction where "ActionContinue = ''continue''"
definition ActionExitSuccess :: ConditionAction where "ActionExitSuccess = ''exit_success''"
definition ActionExitFailed :: ConditionAction where "ActionExitFailed = ''exit_failed''"

record clickParams =
  click_Selector :: string
  click_IgnoreIfNotVisible :: bool
  click_Multiple :: bool

record fillParams =
  fill_Selector :: string
  fill_Value :: string
  fill_Clear :: bool

record executeParams =
  execute_Script :: string
  execute_Timeout :: int

record waitForNavParams =
  nav_Timeout :: int

record waitForSelectorParams =
  wfs_Selector :: string
  wfs_State :: SelectorState
  wfs_Timeout :: int

record scrollParams =
  scroll_Element :: string
  scroll_Selector :: string
  scroll_Infinite :: int
  scroll_ClickSelector :: string

record conditionParams =
  cond_StatusCode :: int
  cond_Selector :: string
  cond_SelectorState :: SelectorState
  cond_Action :: string

datatype any =
    AClick clickParams
  | AFill fillParams
  | AInt int
  | AExecute executeParams
  | AWaitForNav waitForNavParams
  | AWaitForSelector waitForSelectorParams
  | AScroll scrollParams
  | ACondition conditionParams

type_synonym JSScenarioStep = "string \<rightharpoonup> any"

record ScenarioBuilder =
  steps :: "JSScenarioStep list"
  err :: "error option"

text \<open>
  An option is a function value that updates the parameter struct through a pointer.
  \<open>None\<close> is the nil function value, which the variadic parameter accepts like any
  other; calling it is a run-time panic, which ends the method before it appends.
\<close>

datatype panic = NilDereference

type_synonym 'p opt = "('p \<Rightarrow> 'p) option"

type_synonym ClickOption = "clickParams opt"
type_synonym FillOption = "fillParams opt"
type_synonym ExecuteOption = "executeParams opt"
type_synonym WaitForNavOption = "waitForNavParams opt"
type_synonym WaitForSelectorOption = "waitForSelectorParams opt"
type_synonym ScrollOption = "scrollParams opt"

definition WithClickIgnoreIfNotVisible :: "bool \<Rightarrow> ClickOption" where
  "WithClickIgnoreIfNotVisible ignore = Some (\<lambda>p. p\<lparr>click_IgnoreIfNotVisible := ignore\<rparr>)"

definition WithClickMultiple :: "bool \<Rightarrow> ClickOption" where
  "WithClickMultiple multiple = Some (\<lambda>p. p\<lparr>click_Multiple := multiple\<rparr>)"

definition WithFillClear :: "bool \<Rightarrow> FillOption" where
  "WithFillClear clear = Some (\<lambda>p. p\<lparr>fill_Clear := clear\<rparr>)"

definition WithExecuteTimeout :: "int \<Rightarrow> ExecuteOption" where
  "WithExecuteTimeout milliseconds = Some (\<lambda>p. p\<lparr>execute_Timeout := milliseconds\<rparr>)"

definition WithNavTimeout :: "int \<Rightarrow> WaitForNavOption" where
  "WithNavTimeout milliseconds = Some (\<lambda>p. p\<lparr>nav_Timeout := milliseconds\<rparr>)"

definition WithSelectorState :: "SelectorState \<Rightarrow> WaitForSelectorOption" where
  "WithSelectorState state = Some (\<lambda>p. p\<lparr>wfs_State := state\<rparr>)"

definition WithSelectorTimeout :: "int \<Rightarrow> WaitForSelectorOption" where
  "WithSelectorTimeout milliseconds = Some (\<lambda>p. p\<lparr>wfs_Timeout := milliseconds\<rparr>)"

definition WithScrollElement :: "string \<Rightarrow> ScrollOption" where
  "WithScrollElement selector = Some (\<lambda>p. p\<lparr>scroll_Element := selector\<rparr>)"

definition WithScrollToSelector :: "string \<Rightarrow> ScrollOption" where
  "WithScrollToSelector selector = Some (\<lambda>p. p\<lparr>scroll_Selector := selector\<rparr>)"

definition WithScrollInfinite :: "int \<Rightarrow> ScrollOption" where
  "WithScrollInfinite iterations = Some (\<lambda>p. p\<lparr>scroll_Infinite := iterations\<rparr>)"

definition WithScrollClickAfter :: "string \<Rightarrow> ScrollOption" where
  "WithScrollClickAfter selector = Some (\<lambda>p. p\<lparr>scroll_ClickSelector := selector\<rparr>)"

text \<open>The loop \<^verbatim>\<open>for _, opt := range opts { opt(params) }\<close>.\<close>

fun apply_opts :: "'p \<Rightarrow> 'p opt list \<Rightarrow> panic + 'p" where
  "apply_opts p [] = Inr p"
| "apply_opts p (None # opts) = Inl NilDereference"
| "apply_opts p (Some f # opts) = apply_opts (f p) opts"

definition append_step :: "ScenarioBuilder \<Rightarrow> JSScenarioStep \<Rightarrow> ScenarioBuilder" where
  "append_step b st = b\<lparr>steps := steps b @ [st]\<rparr>"

definition New :: ScenarioBuilder where
  "New = \<lparr>steps = [], err = None\<rparr>"

definition Steps :: "ScenarioBuilder \<Rightarrow> JSScenarioStep list" where
  "Steps b = steps b"

text \<open>\<^verbatim>\<open>Build\<close> returns a slice and an error; \<open>None\<close> is nil in either place.\<close>

definition Build :: "ScenarioBuilder \<Rightarrow> JSScenarioStep list option \<times> error option" where
  "Build b =
     (if err b \<noteq> None then (None, err b)
      else if length (steps b) = 0 then (None, None)
      else (Some (steps b), None))"

definition Click :: "string \<Rightarrow> ClickOption list \<Rightarrow> ScenarioBuilder \<Rightarrow> panic + ScenarioBuilder" where
  "Click selector opts b =
     (if err b \<noteq> None then Inr b
      else case apply_opts \<lparr>click_Selector = selector, click_IgnoreIfNotVisible = False,
                              click_Multiple = False\<rparr> opts of
             Inl p \<Rightarrow> Inl p
           | Inr params \<Rightarrow> Inr (append_step b [''click'' \<mapsto> AClick params]))"

definition Fill :: "string \<Rightarrow> string \<Rightarrow> FillOption list \<Rightarrow> ScenarioBuilder \<Rightarrow> panic + ScenarioBuilder" where
  "Fill selector val opts b =
     (if err b \<noteq> None then Inr b
      else case apply_opts \<lparr>fill_Selector = selector, fill_Value = val, fill_Clear = False\<rparr> opts of
             Inl p \<Rightarrow> Inl p
           | Inr params \<Rightarrow> Inr (append_step b [''fill'' \<mapsto> AFill params]))"

definition Wait :: "int \<Rightarrow> ScenarioBuilder \<Rightarrow> panic + ScenarioBuilder" where
  "Wait milliseconds b =
     (if err b \<noteq> None then Inr b
      else Inr (append_step b [''wait'' \<mapsto> AInt milliseconds]))"

definition Execute :: "string \<Rightarrow> ExecuteOption list \<Rightarrow> ScenarioBuilder \<Rightarrow> panic + ScenarioBuilder" where
  "Execute script opts b =
     (if err b \<noteq> None then Inr b
      else case apply_opts \<lparr>execute_Script = script, execute_Timeout = 0\<rparr> opts of
             Inl p \<Rightarrow> Inl p
           | Inr params \<Rightarrow> Inr (append_step b [''execute'' \<mapsto> AExecute params]))"

definition WaitForNavigation :: "WaitForNavOption list \<Rightarrow> ScenarioBuilder \<Rightarrow> panic + ScenarioBuilder" where
  "WaitForNavigation opts b =
     (if err b \<noteq> None then Inr b
      else case apply_opts \<lparr>nav_Timeout = 0\<rparr> opts of
             Inl p \<Rightarrow> Inl p
           | Inr params \<Rightarrow> Inr (append_step b [''wait_for_navigation'' \<mapsto> AWaitForNav params]))"

definition WaitForSelector ::
  "string \<Rightarrow> WaitForSelectorOption list \<Rightarrow> ScenarioBuilder \<Rightarrow> panic + ScenarioBuilder" where
  "WaitForSelector selector opts b =
     (if err b \<noteq> None then Inr b
      else case apply_opts \<lparr>wfs_Selector = selector, wfs_State = [], wfs_Timeout = 0\<rparr> opts of
             Inl p \<Rightarrow> Inl p
           | Inr params \<Rightarrow> Inr (append_step b [''wait_for_selector'' \<mapsto> AWaitForSelector params]))"

definition Scroll :: "ScrollOption list \<Rightarrow> ScenarioBuilder \<Rightarrow> panic + ScenarioBuilder" where
  "Scroll opts b =
     (if err b \<noteq> None then Inr b
      else case apply_opts \<lparr>scroll_Element = [], scroll_Selector = [], scroll_Infinite = 0,
                              scroll_ClickSelector = []\<rparr> opts of
             Inl p \<Rightarrow> Inl p
           | Inr params \<Rightarrow> Inr (append_step b [''scroll'' \<mapsto> AScroll params]))"

definition ConditionOnStatusCode :: "int \<Rightarrow> ConditionAction \<Rightarrow> ScenarioBuilder \<Rightarrow> panic + ScenarioBuilder" where
  "ConditionOnStatusCode statusCode action b =
     (if err b \<noteq> None then Inr b
      else Inr (append_step b
             [''condition'' \<mapsto> ACondition \<lparr>cond_StatusCode = statusCode, cond_Selector = [],
                                               cond_SelectorState = [], cond_Action = action\<rparr>]))"

definition ConditionOnSelector ::
  "string \<Rightarrow> SelectorState \<Rightarrow> ConditionAction \<Rightarrow> ScenarioBuilder \<Rightarrow> panic + ScenarioBuilder" where
  "ConditionOnSelector selector state action b =
     (if err b \<noteq> None then Inr b
      else Inr (append_step b
             [''condition'' \<mapsto> ACondition \<lparr>cond_StatusCode = 0, cond_Selector = selector,
                                               cond_SelectorState = state, cond_Action = action\<rparr>]))"

text \<open>
  A finite sequence of method calls on one builder. A panic ends the sequence: the
  calls after it are not made.
\<close>

datatype call =
    CallClick string "ClickOption list"
  | CallFill string string "FillOption list"
  | CallWait int
  | CallExecute string "ExecuteOption list"
  | CallWaitForNavigation "WaitForNavOption list"
  | CallWaitForSelector string "WaitForSelectorOption list"
  | CallScroll "ScrollOption list"
  | CallConditionOnStatusCode int ConditionAction
  | CallConditionOnSelector string SelectorState ConditionAction

fun invoke :: "call \<Rightarrow> ScenarioBuilder \<Rightarrow> panic + ScenarioBuilder" where
  "invoke (CallClick sel opts) b = Click sel opts b"
| "invoke (CallFill sel v opts) b = Fill sel v opts b"
| "invoke (CallWait ms) b = Wait ms b"
| "invoke (CallExecute script opts) b = Execute script opts b"
| "invoke (CallWaitForNavigation opts) b = WaitForNavigation opts b"
| "invoke (CallWaitForSelector sel opts) b = WaitForSelector sel opts b"
| "invoke (CallScroll opts) b = Scroll opts b"
| "invoke (CallConditionOnStatusCode code action) b = ConditionOnStatusCode code action b"
| "invoke (CallConditionOnSelector sel state action) b = ConditionOnSelector sel state action b"

fun run :: "call list \<Rightarrow> ScenarioBuilder \<Rightarrow> panic + ScenarioBuilder" where
  "run [] b = Inr b"
| "run (c # cs) b = (case invoke c b of Inl p \<Rightarrow> Inl p | Inr b' \<Rightarrow> run cs b')"

text \<open>The name of the action a call adds, and whether every option passed is a function.\<close>

fun action_name :: "call \<Rightarrow> string" where
  "action_name (CallClick sel opts) = ''click''"
| "action_name (CallFill sel v opts) = ''fill''"
| "action_name (CallWait ms) = ''wait''"
| "action_name (CallExecute script opts) = ''execute''"
| "action_name (CallWaitForNavigation opts) = ''wait_for_navigation''"
| "action_name (CallWaitForSelector sel opts) = ''wait_for_selector''"
| "action_name (CallScroll opts) = ''scroll''"
| "action_name (CallConditionOnStatusCode code action) = ''condition''"
| "action_name (CallConditionOnSelector sel state action) = ''condition''"

fun options_non_nil :: "call \<Rightarrow> bool" where
  "options_non_nil (CallClick sel opts) = (None \<notin> set opts)"
| "options_non_nil (CallFill sel v opts) = (None \<notin> set opts)"
| "options_non_nil (CallWait ms) = True"
| "options_non_nil (CallExecute script opts) = (None \<notin> set opts)"
| "options_non_nil (CallWaitForNavigation opts) = (None \<notin> set opts)"
| "options_non_nil (CallWaitForSelector sel opts) = (None \<notin> set opts)"
| "options_non_nil (CallScroll opts) = (None \<notin> set opts)"
| "options_non_nil (CallConditionOnStatusCode code action) = True"
| "options_non_nil (CallConditionOnSelector sel state action) = True"

section \<open>The classifier and the dispatcher, as the specification describes them\<close>

text \<open>
  Modelled from the spec: \<^verbatim>\<open>Classify(rawStatus, body, transportErr)\<close>, which is not among
  the source files. A transport failure carries its message and whether it is attributed
  to reaching the target site or to the scraping API host; the specification names the
  two kinds and the two attributions in this order. Without a transport failure the
  body is parsed and looked up in a decision table; neither the parser nor the table is
  given, so that branch is the parameter \<open>classify_body\<close>.
\<close>

datatype attribution = TargetSite | APIHost

record transport_error =
  te_message :: string
  te_attribution :: attribution

definition Classify ::
  "(int \<Rightarrow> string \<Rightarrow> error \<times> 'r APIError) \<Rightarrow> int \<Rightarrow> string \<Rightarrow> transport_error option
     \<Rightarrow> error \<times> 'r APIError" where
  "Classify classify_body rawStatus body transportErr =
     (case transportErr of
        Some te \<Rightarrow>
          (case te_attribution te of TargetSite \<Rightarrow> ErrProxyFailed | APIHost \<Rightarrow> ErrUpstreamServer,
           \<lparr>Message = te_message te, Code = [], HTTPStatusCode = 0, DocumentationURL = [],
            APIResponse = None, RetryAfterMs = 0, Hint = []\<rparr>)
      | None \<Rightarrow> classify_body rawStatus body)"

text \<open>
  Modelled from the spec: the number of workers \<^verbatim>\<open>Dispatch(configs, concurrency)\<close> runs,
  \<^verbatim>\<open>Dispatch\<close> not being among the source files. The specification gives two
  adjustments: a limit of zero or less stands for the size of the batch, and a limit
  above the size of the batch is cut down to it.
\<close>

definition effective_concurrency :: "'c list \<Rightarrow> int \<Rightarrow> int" where
  "effective_concurrency configs concurrency =
     (let n = int (length configs);
          unbounded = (if concurrency \<le> 0 then n else concurrency)
      in if unbounded > n then n else unbounded)"

section \<open>Properties of the formatted error text\<close>

text \<open>
  C10. For every API error \<open>e\<close>, \<open>Error e\<close> is the text
  "API Error: Message (code: Code, status: HTTPStatusCode, docs: DocumentationURL)",
  the two integers in decimal, followed by ", retry_after_ms: RetryAfterMs" exactly
  when \<open>RetryAfterMs e\<close> is positive; a zero or negative value adds nothing.
\<close>

theorem Error_text:
  "Error e =
     ''API Error: '' @ Message e @ '' (code: '' @ Code e @ '', status: '' @ itoa (HTTPStatusCode e)
       @ '', docs: '' @ DocumentationURL e @ '')''
       @ (if 0 < RetryAfterMs e then '', retry_after_ms: '' @ itoa (RetryAfterMs e) else [])"
  by (simp add: Error_def extra_def)

theorem Error_text_witness:
  "Error \<lparr>Message = ''slow down'', Code = ''ERR::SCRAPE::THROTTLE'', HTTPStatusCode = 429,
          DocumentationURL = ''https://scrapfly.io/docs'', APIResponse = (None :: unit option),
          RetryAfterMs = 3000, Hint = []\<rparr>
     = ''API Error: slow down (code: ERR::SCRAPE::THROTTLE, status: 429, docs: https://scrapfly.io/docs), retry_after_ms: 3000''
   \<and> Error \<lparr>Message = ''gone'', Code = ''ERR::X'', HTTPStatusCode = 404,
          DocumentationURL = [], APIResponse = (None :: unit option),
          RetryAfterMs = - 5, Hint = []\<rparr>
     = ''API Error: gone (code: ERR::X, status: 404, docs: )''"
  using Error_text [of "\<lparr>Message = ''slow down'', Code = ''ERR::SCRAPE::THROTTLE'', HTTPStatusCode = 429,
          DocumentationURL = ''https://scrapfly.io/docs'', APIResponse = (None :: unit option),
          RetryAfterMs = 3000, Hint = []\<rparr>"]
        Error_text [of "\<lparr>Message = ''gone'', Code = ''ERR::X'', HTTPStatusCode = 404,
          DocumentationURL = [], APIResponse = (None :: unit option),
          RetryAfterMs = - 5, Hint = []\<rparr>"]
  by (simp add: itoa_def decimal.simps digit_char_def)

section \<open>Properties of the sentinel errors\<close>

lemmas sentinel_names = ErrBadAPIKey_def ErrScrapeConfig_def ErrScreenshotConfig_def ErrExtractionConfig_def
  ErrContentType_def ErrTooManyRequests_def ErrQuotaLimitReached_def ErrScreenshotAPIFailed_def
  ErrExtractionAPIFailed_def ErrUpstreamClient_def ErrUpstreamServer_def ErrAPIClient_def ErrAPIServer_def
  ErrScrapeFailed_def ErrProxyFailed_def ErrASPBypassFailed_def ErrScheduleFailed_def ErrWebhookFailed_def
  ErrSessionFailed_def ErrUnhandledAPIResponse_def

lemma new_all_addr: "map addr (fst (new_all ts h)) = [h ..< h + length ts]"
proof (induction ts arbitrary: h)
  case Nil
  show ?case by simp
next
  case (Cons t ts)
  have "map addr (fst (new_all (t # ts) h)) = h # map addr (fst (new_all ts (Suc h)))"
    by (simp add: errors_New_def split: prod.splits)
  also have "\<dots> = h # [Suc h ..< Suc h + length ts]"
    by (simp only: Cons.IH)
  also have "\<dots> = [h ..< h + length (t # ts)]"
    by (simp add: upt_rec)
  finally show ?case .
qed

lemma new_all_str: "map str (fst (new_all ts h)) = ts"
proof (induction ts arbitrary: h)
  case Nil
  show ?case by simp
next
  case (Cons t ts)
  have "map str (fst (new_all (t # ts) h)) = t # map str (fst (new_all ts (Suc h)))"
    by (simp add: errors_New_def split: prod.splits)
  then show ?case by (simp only: Cons.IH)
qed

lemma package_vars_eval:
  "package_vars = map (\<lambda>(i, t). errorString i t) (zip [0..<20] sentinel_texts)"
  by (simp add: package_vars_def sentinel_texts_def errors_New_def upt_rec)

lemma set_all_kinds: "set all_kinds = UNIV"
proof -
  have "k \<in> set all_kinds" for k
    by (cases k rule: sentinel.cases) (simp_all add: all_kinds_def)
  then show ?thesis by blast
qed

lemma map_sentinel: "map sentinel all_kinds = package_vars"
  by (simp add: all_kinds_def sentinel_names package_vars_eval sentinel_texts_def upt_rec)

lemma distinct_addr: "distinct (map addr package_vars)"
  unfolding package_vars_def new_all_addr by simp

lemma distinct_str: "distinct (map str package_vars)"
  unfolding package_vars_def new_all_str by (simp add: sentinel_texts_def)

lemma inj_addr_sentinel: "inj (\<lambda>k. addr (sentinel k))"
proof -
  have "distinct (map (\<lambda>k. addr (sentinel k)) all_kinds)"
    using distinct_addr by (simp add: map_sentinel [symmetric] comp_def)
  then have "inj_on (\<lambda>k. addr (sentinel k)) (set all_kinds)"
    by (simp add: distinct_map)
  then show ?thesis by (simp add: set_all_kinds)
qed

text \<open>
  The package declares twenty sentinel errors, one per kind of the specification's
  enumeration (the invalid-config kind once per request type) and no other. They are
  pairwise distinct as pointers and their texts are pairwise distinct as well.
\<close>

lemma sentinels_match_enumeration:
  "length package_vars = 20
   \<and> map sentinel all_kinds = package_vars
   \<and> range sentinel = set package_vars
   \<and> distinct (map addr package_vars)
   \<and> distinct (map str package_vars)
   \<and> inj sentinel"
proof -
  have len: "length package_vars = 20"
    using arg_cong [OF new_all_str [of sentinel_texts 0], of length]
    by (simp add: package_vars_def sentinel_texts_def)
  have rng: "range sentinel = set package_vars"
    using arg_cong [OF map_sentinel, of set] by (simp add: set_all_kinds)
  have inj: "inj sentinel"
    using inj_addr_sentinel by (auto simp: inj_on_def)
  from len map_sentinel rng distinct_addr distinct_str inj show ?thesis by blast
qed

section \<open>Properties of the scenario builder\<close>

lemma apply_opts_ok: "None \<notin> set opts \<Longrightarrow> \<exists>q. apply_opts p opts = Inr q"
  by (induction p opts rule: apply_opts.induct) auto

lemmas method_defs = Click_def Fill_def Wait_def Execute_def WaitForNavigation_def WaitForSelector_def
  Scroll_def ConditionOnStatusCode_def ConditionOnSelector_def

lemma invoke_appends:
  assumes e: "err b = None" and nn: "options_non_nil c"
  shows "\<exists>v. invoke c b = Inr (append_step b [action_name c \<mapsto> v])"
proof (cases c)
  case (CallClick sel opts)
  with nn have "None \<notin> set opts" by simp
  from apply_opts_ok[OF this] obtain q where
    "apply_opts \<lparr>click_Selector = sel, click_IgnoreIfNotVisible = False, click_Multiple = False\<rparr> opts = Inr q"
    by blast
  with e CallClick show ?thesis by (intro exI[of _ "AClick q"]) (simp add: Click_def)
next
  case (CallFill sel v opts)
  with nn have "None \<notin> set opts" by simp
  from apply_opts_ok[OF this] obtain q where
    "apply_opts \<lparr>fill_Selector = sel, fill_Value = v, fill_Clear = False\<rparr> opts = Inr q"
    by blast
  with e CallFill show ?thesis by (intro exI[of _ "AFill q"]) (simp add: Fill_def)
next
  case (CallWait ms)
  with e show ?thesis by (intro exI[of _ "AInt ms"]) (simp add: Wait_def)
next
  case (CallExecute script opts)
  with nn have "None \<notin> set opts" by simp
  from apply_opts_ok[OF this] obtain q where
    "apply_opts \<lparr>execute_Script = script, execute_Timeout = 0\<rparr> opts = Inr q"
    by blast
  with e CallExecute show ?thesis by (intro exI[of _ "AExecute q"]) (simp add: Execute_def)
next
  case (CallWaitForNavigation opts)
  with nn have "None \<notin> set opts" by simp
  from apply_opts_ok[OF this] obtain q where
    "apply_opts \<lparr>nav_Timeout = 0\<rparr> opts = Inr q"
    by blast
  with e CallWaitForNavigation show ?thesis
    by (intro exI[of _ "AWaitForNav q"]) (simp add: WaitForNavigation_def)
next
  case (CallWaitForSelector sel opts)
  with nn have "None \<notin> set opts" by simp
  from apply_opts_ok[OF this] obtain q where
    "apply_opts \<lparr>wfs_Selector = sel, wfs_State = [], wfs_Timeout = 0\<rparr> opts = Inr q"
    by blast
  with e CallWaitForSelector show ?thesis
    by (intro exI[of _ "AWaitForSelector q"]) (simp add: WaitForSelector_def)
next
  case (CallScroll opts)
  with nn have "None \<notin> set opts" by simp
  from apply_opts_ok[OF this] obtain q where
    "apply_opts \<lparr>scroll_Element = [], scroll_Selector = [], scroll_Infinite = 0,
        scroll_ClickSelector = []\<rparr> opts = Inr q"
    by blast
  with e CallScroll show ?thesis by (intro exI[of _ "AScroll q"]) (simp add: Scroll_def)
next
  case (CallConditionOnStatusCode code action)
  with e show ?thesis
    by (intro exI[of _ "ACondition \<lparr>cond_StatusCode = code, cond_Selector = [],
          cond_SelectorState = [], cond_Action = action\<rparr>"]) (simp add: ConditionOnStatusCode_def)
next
  case (CallConditionOnSelector sel state action)
  with e show ?thesis
    by (intro exI[of _ "ACondition \<lparr>cond_StatusCode = 0, cond_Selector = sel,
          cond_SelectorState = state, cond_Action = action\<rparr>"]) (simp add: ConditionOnSelector_def)
qed

lemma invoke_err: "invoke c b = Inr b' \<Longrightarrow> err b' = err b"
  by (cases c) (auto simp: method_defs append_step_def split: if_splits sum.splits)

lemma run_append: "run (xs @ ys) b = (case run xs b of Inl p \<Rightarrow> Inl p | Inr b' \<Rightarrow> run ys b')"
  by (induction xs arbitrary: b) (auto split: sum.splits)

lemma run_steps:
  "\<forall>c\<in>set cs. options_non_nil c \<Longrightarrow> err b = None \<Longrightarrow>
   \<exists>sts. run cs b = Inr (b\<lparr>steps := steps b @ sts\<rparr>) \<and> length sts = length cs \<and>
     (\<forall>i<length cs. \<exists>v. sts ! i = [action_name (cs ! i) \<mapsto> v])"
proof (induction cs arbitrary: b)
  case Nil
  then show ?case by simp
next
  case (Cons c cs)
  have c: "options_non_nil c" and cs: "\<forall>c\<in>set cs. options_non_nil c"
    using Cons.prems(1) by simp_all
  from invoke_appends[OF Cons.prems(2) c]
  obtain v where v: "invoke c b = Inr (append_step b [action_name c \<mapsto> v])" by blast
  define b1 where "b1 = append_step b [action_name c \<mapsto> v]"
  have e1: "err b1 = None" using Cons.prems(2) by (simp add: b1_def append_step_def)
  have s1: "steps b1 = steps b @ [[action_name c \<mapsto> v]]" by (simp add: b1_def append_step_def)
  from Cons.IH[OF cs e1] obtain sts where
    r: "run cs b1 = Inr (b1\<lparr>steps := steps b1 @ sts\<rparr>)" and l: "length sts = length cs"
    and k: "\<forall>i<length cs. \<exists>v. sts ! i = [action_name (cs ! i) \<mapsto> v]" by blast
  define sts' where "sts' = [action_name c \<mapsto> v] # sts"
  have "run (c # cs) b = Inr (b\<lparr>steps := steps b @ sts'\<rparr>)"
    using v r by (simp add: b1_def[symmetric] s1 sts'_def) (simp add: b1_def append_step_def)
  moreover have "length sts' = length (c # cs)" using l by (simp add: sts'_def)
  moreover have "\<forall>i<length (c # cs). \<exists>v. sts' ! i = [action_name ((c # cs) ! i) \<mapsto> v]"
  proof (intro allI impI)
    fix i assume "i < length (c # cs)"
    show "\<exists>v. sts' ! i = [action_name ((c # cs) ! i) \<mapsto> v]"
    proof (cases i)
      case 0
      then show ?thesis by (simp add: sts'_def) blast
    next
      case (Suc j)
      with \<open>i < length (c # cs)\<close> have "j < length cs" by simp
      with k Suc show ?thesis by (simp add: sts'_def)
    qed
  qed
  ultimately show ?case by blast
qed

lemma run_New_steps:
  assumes "\<forall>c\<in>set cs. options_non_nil c"
  shows "\<exists>sts. run cs New = Inr \<lparr>steps = sts, err = None\<rparr> \<and> length sts = length cs \<and>
           (\<forall>i<length cs. \<exists>v. sts ! i = [action_name (cs ! i) \<mapsto> v])"
  using run_steps [OF assms, of New] by (simp add: New_def)

text \<open>
  C9, as stated, fails on a call that is passed a nil option: the method panics at
  \<^verbatim>\<open>opt(params)\<close> and appends no step.
\<close>

theorem nil_option_panics:
  "run [CallClick ''button'' [None]] New = Inl NilDereference"
  by (simp add: Click_def New_def)

text \<open>
  C9, amended. For a builder made by \<open>New\<close> and every finite sequence of calls of the
  action methods whose options are all non-nil, every call returns; the builder's error
  stays nil; each call appends exactly one step, so that after the first \<open>n\<close> calls
  the steps are the first \<open>n\<close> steps of the final list; the step of a call is a map
  with one key, the name of its action; and \<open>Build\<close> returns a nil error, with a nil
  slice exactly when no call was made and the whole list of steps otherwise.
\<close>

theorem builder_appends_one_step_per_call:
  assumes "\<forall>c\<in>set cs. options_non_nil c"
  shows "\<exists>b. run cs New = Inr b \<and> err b = None \<and> length (steps b) = length cs
           \<and> (\<forall>n\<le>length cs. run (take n cs) New = Inr (b\<lparr>steps := take n (steps b)\<rparr>))
           \<and> (\<forall>i<length cs. \<exists>v. steps b ! i = [action_name (cs ! i) \<mapsto> v])
           \<and> Build b = (if cs = [] then (None, None) else (Some (steps b), None))"
proof -
  from run_New_steps [OF assms] obtain sts where
    r: "run cs New = Inr \<lparr>steps = sts, err = None\<rparr>" and l: "length sts = length cs"
    and k: "\<forall>i<length cs. \<exists>v. sts ! i = [action_name (cs ! i) \<mapsto> v]" by blast
  define b where "b = \<lparr>steps = sts, err = None\<rparr>"
  have pre: "run (take n cs) New = Inr (b\<lparr>steps := take n (steps b)\<rparr>)" if n: "n \<le> length cs" for n
  proof -
    have t: "\<forall>c\<in>set (take n cs). options_non_nil c" and d: "\<forall>c\<in>set (drop n cs). options_non_nil c"
      using assms by (auto dest: in_set_takeD in_set_dropD)
    from run_New_steps [OF t] obtain s1 where
      r1: "run (take n cs) New = Inr \<lparr>steps = s1, err = None\<rparr>" and l1: "length s1 = length (take n cs)"
      by blast
    from run_steps [OF d, of "\<lparr>steps = s1, err = None\<rparr>"] obtain s2 where
      r2: "run (drop n cs) \<lparr>steps = s1, err = None\<rparr> = Inr \<lparr>steps = s1 @ s2, err = None\<rparr>"
      by auto
    have "run cs New = run (take n cs @ drop n cs) New" by simp
    also have "\<dots> = Inr \<lparr>steps = s1 @ s2, err = None\<rparr>"
      unfolding run_append using r1 r2 by simp
    finally have "sts = s1 @ s2" using r by simp
    moreover have "length s1 = n" using l1 n by simp
    ultimately have "take n sts = s1" by simp
    with r1 show ?thesis by (simp add: b_def)
  qed
  have bld: "Build b = (if cs = [] then (None, None) else (Some (steps b), None))"
    using l by (auto simp: Build_def b_def)
  have "run cs New = Inr b" using r by (simp add: b_def)
  moreover have "err b = None" by (simp add: b_def)
  moreover have "length (steps b) = length cs" using l by (simp add: b_def)
  moreover have "\<forall>i<length cs. \<exists>v. steps b ! i = [action_name (cs ! i) \<mapsto> v]"
    using k by (simp add: b_def)
  ultimately show ?thesis using pre bld by blast
qed

theorem builder_appends_one_step_per_call_witness:
  "\<exists>b. run [CallFill ''input[name=username]'' ''user123'' [WithFillClear True],
              CallClick ''button'' [], CallWaitForNavigation [WithNavTimeout 5000]] New = Inr b
       \<and> err b = None \<and> length (steps b) = 3
       \<and> Build b = (Some (steps b), None)"
proof -
  have h: "\<forall>c\<in>set [CallFill ''input[name=username]'' ''user123'' [WithFillClear True],
              CallClick ''button'' [], CallWaitForNavigation [WithNavTimeout 5000]]. options_non_nil c"
    by (simp add: WithFillClear_def WithNavTimeout_def)
  from builder_appends_one_step_per_call [OF h] obtain b where
    "run [CallFill ''input[name=username]'' ''user123'' [WithFillClear True],
              CallClick ''button'' [], CallWaitForNavigation [WithNavTimeout 5000]] New = Inr b"
    "err b = None"
    "length (steps b) = length [CallFill ''input[name=username]'' ''user123'' [WithFillClear True],
              CallClick ''button'' [], CallWaitForNavigation [WithNavTimeout 5000]]"
    "Build b = (if [CallFill ''input[name=username]'' ''user123'' [WithFillClear True],
              CallClick ''button'' [], CallWaitForNavigation [WithNavTimeout 5000]] = []
            then (None, None) else (Some (steps b), None))"
    by blast
  then show ?thesis by (intro exI [of _ b]) simp
qed

section \<open>Properties of the classifier and the dispatcher of the specification\<close>

text \<open>
  C3. With a transport failure, \<open>Classify\<close> does not look at the body: the result is
  the same for every body, every status and every way of classifying bodies. The kind
  is the proxy-failed or the upstream-server sentinel, chosen by the attribution of the
  failure, and the detail has status 0 and the transport message.
\<close>

theorem Classify_transport_error:
  "Classify cb1 s1 body1 (Some te) = Classify cb2 s2 body2 (Some te)
   \<and> fst (Classify cb1 s1 body1 (Some te))
       = (if te_attribution te = TargetSite then ErrProxyFailed else ErrUpstreamServer)
   \<and> fst (Classify cb1 s1 body1 (Some te)) \<in> {ErrProxyFailed, ErrUpstreamServer}
   \<and> HTTPStatusCode (snd (Classify cb1 s1 body1 (Some te))) = 0
   \<and> Message (snd (Classify cb1 s1 body1 (Some te))) = te_message te"
  by (cases "te_attribution te") (simp_all add: Classify_def)

theorem Classify_transport_error_witness:
  "fst (Classify (\<lambda>s b. (ErrUnhandledAPIResponse,
                     \<lparr>Message = b, Code = [], HTTPStatusCode = s, DocumentationURL = [],
                      APIResponse = (None :: unit option), RetryAfterMs = 0, Hint = []\<rparr>))
         502 ''<html>''
         (Some \<lparr>te_message = ''dial tcp: connection refused'', te_attribution = APIHost\<rparr>))
     = ErrUpstreamServer
   \<and> ErrUpstreamServer \<noteq> ErrProxyFailed"
proof -
  have "ErrUpstreamServer \<noteq> ErrProxyFailed"
    by (simp add: ErrUpstreamServer_def ErrProxyFailed_def package_vars_eval sentinel_texts_def upt_rec)
  moreover note Classify_transport_error
    [of "\<lambda>s b. (ErrUnhandledAPIResponse,
                     \<lparr>Message = b, Code = [], HTTPStatusCode = s, DocumentationURL = [],
                      APIResponse = (None :: unit option), RetryAfterMs = 0, Hint = []\<rparr>)"
        502 "''<html>''"
        "\<lparr>te_message = ''dial tcp: connection refused'', te_attribution = APIHost\<rparr>"]
  ultimately show ?thesis by simp
qed

text \<open>
  C7. The effective concurrency is the size of the batch when the limit is zero or
  less, the size of the batch when the limit exceeds it, and the limit itself
  otherwise.
\<close>

theorem effective_concurrency_cases:
  "effective_concurrency configs c =
     (if c \<le> 0 then int (length configs)
      else if c > int (length configs) then int (length configs)
      else c)"
  by (simp add: effective_concurrency_def Let_def)

theorem effective_concurrency_cases_witness:
  "effective_concurrency [''a'', ''b'', ''c''] 0 = 3
   \<and> effective_concurrency [''a'', ''b'', ''c''] (- 4) = 3
   \<and> effective_concurrency [''a'', ''b'', ''c''] 100 = 3
   \<and> effective_concurrency [''a'', ''b'', ''c''] 2 = 2"
  using effective_concurrency_cases [of "[''a'', ''b'', ''c'']" 0]
        effective_concurrency_cases [of "[''a'', ''b'', ''c'']" "- 4"]
        effective_concurrency_cases [of "[''a'', ''b'', ''c'']" 100]
        effective_concurrency_cases [of "[''a'', ''b'', ''c'']" 2]
  by simp

end
